theory Spec2Isabelle
  imports Complex_Main
begin

section \<open>JavaScript values\<close>

text \<open>
  A JavaScript number is modelled as an exact rational or \<open>NaN\<close>. Arithmetic is exact:
  the rounding of IEEE-754 doubles, overflow to \<open>\<plusminus>Infinity\<close> and the sign of zero
  are not represented. Comparison follows JavaScript: every comparison with \<open>NaN\<close> is
  false.
\<close>

datatype jsnum = NaN | Num rat

text \<open>\<^verbatim>\<open>const NOW = -1\<close>\<close>

definition NOW :: jsnum where
  "NOW = Num (- 1)"

fun js_add :: "jsnum \<Rightarrow> jsnum \<Rightarrow> jsnum" where
  "js_add (Num a) (Num b) = Num (a + b)"
| "js_add _ _ = NaN"

fun js_sub :: "jsnum \<Rightarrow> jsnum \<Rightarrow> jsnum" where
  "js_sub (Num a) (Num b) = Num (a - b)"
| "js_sub _ _ = NaN"

fun js_mul :: "jsnum \<Rightarrow> jsnum \<Rightarrow> jsnum" where
  "js_mul (Num a) (Num b) = Num (a * b)"
| "js_mul _ _ = NaN"

text \<open>
  Every divisor in the source is one of the literals 60 and 1000; a zero divisor
  (an infinity in JavaScript) does not occur and is mapped to \<open>NaN\<close>.
\<close>

fun js_div :: "jsnum \<Rightarrow> jsnum \<Rightarrow> jsnum" where
  "js_div (Num a) (Num b) = (if b = 0 then NaN else Num (a / b))"
| "js_div _ _ = NaN"

text \<open>\<^verbatim>\<open>Math.floor\<close>\<close>

fun js_floor :: "jsnum \<Rightarrow> jsnum" where
  "js_floor (Num a) = Num (of_int \<lfloor>a\<rfloor>)"
| "js_floor NaN = NaN"

text \<open>The operators \<^verbatim>\<open><\<close> and \<^verbatim>\<open>>=\<close> on numbers.\<close>

fun js_lt :: "jsnum \<Rightarrow> jsnum \<Rightarrow> bool" where
  "js_lt (Num a) (Num b) = (a < b)"
| "js_lt _ _ = False"

fun js_ge :: "jsnum \<Rightarrow> jsnum \<Rightarrow> bool" where
  "js_ge (Num a) (Num b) = (a \<ge> b)"
| "js_ge _ _ = False"

text \<open>\<^verbatim>\<open>Number.isNaN\<close> on a number, and the truthiness of a number (\<open>0\<close> and \<open>NaN\<close> are falsy).\<close>

fun isNaN :: "jsnum \<Rightarrow> bool" where
  "isNaN NaN = True"
| "isNaN (Num _) = False"

fun truthy_num :: "jsnum \<Rightarrow> bool" where
  "truthy_num NaN = False"
| "truthy_num (Num a) = (a \<noteq> 0)"

text \<open>
  \<^verbatim>\<open>parseFloat(x.toFixed(3))\<close>. \<^verbatim>\<open>toFixed(3)\<close> prints the integer \<open>n\<close> for which
  \<open>n / 1000\<close> is nearest to \<open>|x|\<close> (the larger one on a tie) with a decimal point before
  its last three digits, after the sign of \<open>x\<close>; at \<open>10\<^sup>2\<^sup>1\<close> and above it prints the
  number as \<^verbatim>\<open>String\<close> does; \<open>NaN\<close> prints as \<^verbatim>\<open>"NaN"\<close>. \<^verbatim>\<open>parseFloat\<close> reads the
  printed number back.
\<close>

fun toFixed3_parseFloat :: "jsnum \<Rightarrow> jsnum" where
  "toFixed3_parseFloat NaN = NaN"
| "toFixed3_parseFloat (Num x) =
     (if \<bar>x\<bar> \<ge> 10 ^ 21 then Num x
      else if x < 0 then Num (- (of_int \<lfloor>(- x) * 1000 + 1 / 2\<rfloor> / 1000))
      else Num (of_int \<lfloor>x * 1000 + 1 / 2\<rfloor> / 1000))"

text \<open>
  The values the program handles. Property values of an object that the program reads
  as numbers (\<^verbatim>\<open>value\<close>, \<^verbatim>\<open>hours\<close>, \<^verbatim>\<open>minutes\<close>, \<^verbatim>\<open>seconds\<close>, \<^verbatim>\<open>milliseconds\<close>, \<^verbatim>\<open>ms\<close>)
  are numbers, as the JSDoc of the source declares them; an absent key is a property
  that is \<^verbatim>\<open>undefined\<close>. \<open>JObject\<close> is an object with such properties: a parts object,
  a computed breakdown or a \<^verbatim>\<open>Time\<close> instance (\<open>[(''value'', v)]\<close>). \<open>JStartStop a b\<close> is
  an object whose properties are \<^verbatim>\<open>start\<close> and \<^verbatim>\<open>stop\<close> (a \<^verbatim>\<open>Range\<close> instance or a literal
  \<^verbatim>\<open>{ start, stop }\<close>). Symbols, BigInts and functions are not represented.
\<close>

datatype jsval =
    JUndefined
  | JNull
  | JBool bool
  | JNumber jsnum
  | JString string
  | JObject "(string \<times> jsnum) list"
  | JStartStop jsval jsval
  | JArray "jsval list"

datatype error = TypeError

fun truthy :: "jsval \<Rightarrow> bool" where
  "truthy JUndefined = False"
| "truthy JNull = False"
| "truthy (JBool b) = b"
| "truthy (JNumber n) = truthy_num n"
| "truthy (JString s) = (s \<noteq> [])"
| "truthy (JObject _) = True"
| "truthy (JStartStop _ _) = True"
| "truthy (JArray _) = True"

section \<open>Numeric decomposition\<close>

record computed =
  totalMilliseconds :: jsnum
  totalSeconds :: jsnum
  totalMinutes :: jsnum
  totalHours :: jsnum
  milliseconds :: jsnum
  seconds :: jsnum
  minutes :: jsnum
  hours :: jsnum
  ms :: jsnum

text \<open>
  \<^verbatim>\<open>function getComputedTime(value)\<close>
\<close>

definition getComputedTime :: "jsnum \<Rightarrow> computed" where
  "getComputedTime v =
    (let totalMilliseconds' = js_div v (Num 1000);
         totalSeconds' = v;
         totalMinutes' = js_div totalSeconds' (Num 60);
         totalHours' = js_div totalMinutes' (Num 60);
         hours' = js_floor totalHours';
         minutes' = js_floor (js_mul (js_sub totalHours' hours') (Num 60));
         seconds' = js_floor (js_sub (js_sub totalSeconds' (js_mul (js_mul hours' (Num 60)) (Num 60)))
                                     (js_mul minutes' (Num 60)));
         milliseconds' = js_mul (Num 1000)
            (toFixed3_parseFloat
              (js_sub (js_sub (js_sub totalSeconds' (js_mul (js_mul hours' (Num 60)) (Num 60)))
                              (js_mul minutes' (Num 60)))
                      seconds'))
     in \<lparr> totalMilliseconds = totalMilliseconds', totalSeconds = totalSeconds',
          totalMinutes = totalMinutes', totalHours = totalHours',
          milliseconds = milliseconds', seconds = seconds', minutes = minutes',
          hours = hours', ms = milliseconds' \<rparr>)"


text \<open>
  The own properties that \<^verbatim>\<open>{ ...opts }\<close> copies. Of the keys read afterwards only
  a \<open>JObject\<close> can have one: the spread of \<^verbatim>\<open>undefined\<close>, \<^verbatim>\<open>null\<close>, a boolean or a
  number is empty, that of a string or an array has index keys, that of a
  \<open>JStartStop\<close> has \<^verbatim>\<open>start\<close> and \<^verbatim>\<open>stop\<close>.
\<close>

fun spread :: "jsval \<Rightarrow> (string \<times> jsnum) list" where
  "spread (JObject kvs) = kvs"
| "spread _ = []"

text \<open>\<^verbatim>\<open>x || 0\<close> for a property \<open>x\<close> that is a number or \<^verbatim>\<open>undefined\<close> (\<open>None\<close>).\<close>

fun or0 :: "jsnum option \<Rightarrow> jsnum" where
  "or0 None = Num 0"
| "or0 (Some n) = (if truthy_num n then n else Num 0)"

text \<open>
  \<^verbatim>\<open>function getComputedSeconds(opts)\<close>. In the destructuring
  \<^verbatim>\<open>{ hours, minutes, seconds, milliseconds, ms = milliseconds }\<close> the default applies when
  \<^verbatim>\<open>opts.ms\<close> is \<^verbatim>\<open>undefined\<close>.
\<close>

definition getComputedSeconds :: "jsval \<Rightarrow> jsnum" where
  "getComputedSeconds opts =
    (let opts' = spread opts;
         hours' = map_of opts' ''hours'';
         minutes' = map_of opts' ''minutes'';
         seconds' = map_of opts' ''seconds'';
         milliseconds' = map_of opts' ''milliseconds'';
         ms' = (case map_of opts' ''ms'' of None \<Rightarrow> milliseconds' | Some x \<Rightarrow> Some x);
         total0 = Num 0;
         total1 = js_add total0 (js_mul (js_mul (Num 60) (Num 60)) (or0 hours'));
         total2 = js_add total1 (js_mul (Num 60) (or0 minutes'));
         total3 = js_add total2 (or0 seconds');
         total4 = js_add total3 (js_div (or0 ms') (Num 1000))
     in total4)"

section \<open>Strings\<close>

text \<open>
  A string is a list of characters; a character stands for one code unit below 256.
\<close>

text \<open>The decimal digits of a natural number, given as an integer.\<close>

definition digit_char :: "int \<Rightarrow> char" where
  "digit_char d = ''0123456789'' ! nat (d mod 10)"

function show_digits :: "int \<Rightarrow> string" where
  "show_digits n =
     (if n < 10 then [digit_char n] else show_digits (n div 10) @ [digit_char (n mod 10)])"
  by pat_completeness auto
termination
  by (relation "measure nat") simp_all

declare show_digits.simps [simp del]

text \<open>\<^verbatim>\<open>s.padStart(n, 0)\<close>: the pad string is \<^verbatim>\<open>"0"\<close>.\<close>

definition padStart :: "nat \<Rightarrow> string \<Rightarrow> string" where
  "padStart n s = replicate (n - length s) (CHR ''0'') @ s"

definition strip_trailing_zeros :: "string \<Rightarrow> string" where
  "strip_trailing_zeros s = rev (dropWhile (\<lambda>c. c = CHR ''0'') (rev s))"

text \<open>
  \<^verbatim>\<open>String(x)\<close> for a number. A number of magnitude below \<open>10\<^sup>2\<^sup>1\<close> with at most three
  decimals prints in decimal notation: sign, integer digits and, when there is a
  fraction, a point and the decimals without trailing zeros. The text of any other
  number (the shortest digits that identify a double, or exponent notation) is not
  determined by its rational value; it is the parameter \<open>numstr\<close>.
\<close>

definition short_decimal :: "rat \<Rightarrow> bool" where
  "short_decimal r \<longleftrightarrow> \<bar>r\<bar> < 10 ^ 21 \<and> of_int \<lfloor>r * 1000\<rfloor> = r * 1000"

definition show_decimal :: "rat \<Rightarrow> string" where
  "show_decimal r =
    (let n = \<lfloor>\<bar>r\<bar> * 1000\<rfloor>
     in (if r < 0 then ''-'' else []) @ show_digits (n div 1000) @
        (if n mod 1000 = 0 then []
         else ''.'' @ strip_trailing_zeros (padStart 3 (show_digits (n mod 1000)))))"

fun String_num :: "(rat \<Rightarrow> string) \<Rightarrow> jsnum \<Rightarrow> string" where
  "String_num numstr NaN = ''NaN''"
| "String_num numstr (Num r) = (if short_decimal r then show_decimal r else numstr r)"

definition starts_with :: "string \<Rightarrow> string \<Rightarrow> bool" where
  "starts_with p s \<longleftrightarrow> take (length p) s = p"

text \<open>
  \<^verbatim>\<open>s.replace(pat, rep)\<close> with a string pattern: the first occurrence is replaced. The
  replacements of the source are texts of numbers, which hold no \<^verbatim>\<open>$\<close> pattern.
\<close>

fun replace_first :: "string \<Rightarrow> string \<Rightarrow> string \<Rightarrow> string" where
  "replace_first pat rep [] = (if pat = [] then rep else [])"
| "replace_first pat rep (c # cs) =
     (if starts_with pat (c # cs) then rep @ drop (length pat) (c # cs)
      else c # replace_first pat rep cs)"

text \<open>
  The length of the match of \<^verbatim>\<open>/(hh|mm|ss|H|M|S)(\:)?/\<close> at the start of a string,
  \<open>0\<close> when there is none; the alternatives are tried in order and the colon is taken
  when it is there.
\<close>

definition match_token :: "string \<Rightarrow> nat" where
  "match_token s =
    (let n = (if starts_with ''hh'' s then 2
              else if starts_with ''mm'' s then 2
              else if starts_with ''ss'' s then 2
              else if starts_with ''H'' s then 1
              else if starts_with ''M'' s then 1
              else if starts_with ''S'' s then 1
              else 0)
     in if n = 0 then 0 else if starts_with '':'' (drop n s) then n + 1 else n)"

text \<open>\<^verbatim>\<open>s.replace(/(hh|mm|ss|H|M|S)(\:)?/g, '')\<close>\<close>

function strip_tokens :: "string \<Rightarrow> string" where
  "strip_tokens [] = []"
| "strip_tokens (c # cs) =
     (if match_token (c # cs) = 0 then c # strip_tokens cs
      else strip_tokens (drop (match_token (c # cs)) (c # cs)))"
  by pat_completeness auto
termination
proof (relation "measure length")
  show "wf (measure length)" by simp
next
  fix c :: char and cs :: string
  assume "match_token (c # cs) \<noteq> 0"
  then have "length (drop (match_token (c # cs)) (c # cs)) < length (c # cs)"
    unfolding length_drop by simp
  then show "(drop (match_token (c # cs)) (c # cs), c # cs) \<in> measure length"
    by (simp only: in_measure)
next
  fix c :: char and cs :: string
  show "(cs, c # cs) \<in> measure length" by simp
qed

text \<open>\<^verbatim>\<open>s.trim()\<close>: the white space below code unit 256.\<close>

definition is_space :: "char \<Rightarrow> bool" where
  "is_space c \<longleftrightarrow> of_char c \<in> {9, 10, 11, 12, 13, 32, 160 :: nat}"

definition trim :: "string \<Rightarrow> string" where
  "trim s = rev (dropWhile is_space (rev (dropWhile is_space s)))"

text \<open>\<^verbatim>\<open>s.split(sep)\<close> for a separator of one character.\<close>

fun split :: "char \<Rightarrow> string \<Rightarrow> string list" where
  "split sep [] = [[]]"
| "split sep (c # cs) =
     (if c = sep then [] # split sep cs
      else (case split sep cs of [] \<Rightarrow> [[c]] | p # ps \<Rightarrow> (c # p) # ps))"

section \<open>Time\<close>

text \<open>
  A \<^verbatim>\<open>Time\<close> instance holds one property, \<^verbatim>\<open>value\<close>. \<^verbatim>\<open>npt.parse\<close> of the package
  \<^verbatim>\<open>normalplaytime\<close> is not part of the repository: it is the parameter \<open>parse\<close>, which
  gives the milliseconds of a text, or \<^verbatim>\<open>null\<close> (\<open>None\<close>), and is taken to return.
\<close>

record Time =
  time_value :: jsnum

type_synonym parser = "string \<Rightarrow> jsnum option"

text \<open>\<^verbatim>\<open>new Time(value)\<close>\<close>

definition Time_new :: "jsnum \<Rightarrow> Time" where
  "Time_new v = \<lparr> time_value = v \<rparr>"

text \<open>
  \<^verbatim>\<open>typeof arg.value === 'number'\<close>, with the number: only a \<open>JObject\<close> can have the
  property; on a boolean, an array or a \<open>JStartStop\<close> it is \<^verbatim>\<open>undefined\<close>.
\<close>

fun value_number :: "jsval \<Rightarrow> jsnum option" where
  "value_number (JObject kvs) = map_of kvs ''value''"
| "value_number _ = None"

text \<open>
  \<^verbatim>\<open>key in arg\<close> for the keys \<^verbatim>\<open>hours\<close>, \<^verbatim>\<open>minutes\<close> and \<^verbatim>\<open>seconds\<close>. The operator
  throws a \<^verbatim>\<open>TypeError\<close> when its right operand is not an object.
\<close>

fun js_in :: "string \<Rightarrow> jsval \<Rightarrow> error + bool" where
  "js_in k (JObject kvs) = Inr (map_of kvs k \<noteq> None)"
| "js_in k (JStartStop _ _) = Inr (k = ''start'' \<or> k = ''stop'')"
| "js_in k (JArray _) = Inr False"
| "js_in k _ = Inl TypeError"

text \<open>\<^verbatim>\<open>'hours' in arg || 'minutes' in arg || 'seconds' in arg\<close>\<close>

definition has_parts :: "jsval \<Rightarrow> error + bool" where
  "has_parts arg =
    (case js_in ''hours'' arg of
       Inl e \<Rightarrow> Inl e
     | Inr True \<Rightarrow> Inr True
     | Inr False \<Rightarrow>
        (case js_in ''minutes'' arg of
           Inl e \<Rightarrow> Inl e
         | Inr True \<Rightarrow> Inr True
         | Inr False \<Rightarrow> js_in ''seconds'' arg))"

text \<open>
  \<^verbatim>\<open>static from(arg)\<close>. The branch of a string that does not parse, like every test
  that fails, ends at \<^verbatim>\<open>return new this(Number.NaN)\<close>.
\<close>

definition Time_from :: "parser \<Rightarrow> jsval \<Rightarrow> error + Time" where
  "Time_from parse arg =
    (case arg of
       JNumber (Num r) \<Rightarrow> Inr (Time_new (Num r))
     | JString s \<Rightarrow>
         (if s = ''now'' then Inr (Time_new NOW)
          else (case parse s of
                  None \<Rightarrow> Inr (Time_new NaN)
                | Some parsed \<Rightarrow>
                    if truthy_num parsed then Inr (Time_new (js_div parsed (Num 1000)))
                    else Inr (Time_new NaN)))
     | _ \<Rightarrow>
         (if truthy arg \<and> value_number arg \<noteq> None
          then Inr (Time_new (case value_number arg of Some v \<Rightarrow> v | None \<Rightarrow> NaN))
          else if truthy arg
          then (case has_parts arg of
                  Inl e \<Rightarrow> Inl e
                | Inr True \<Rightarrow> Inr (Time_new (getComputedSeconds arg))
                | Inr False \<Rightarrow> Inr (Time_new NaN))
          else Inr (Time_new NaN)))"

text \<open>\<^verbatim>\<open>static now()\<close>\<close>

definition Time_now :: "parser \<Rightarrow> error + Time" where
  "Time_now parse = Time_from parse (JNumber NOW)"

definition isNow :: "Time \<Rightarrow> bool" where
  "isNow t \<longleftrightarrow> NOW = time_value t"

definition isValid :: "Time \<Rightarrow> bool" where
  "isValid t \<longleftrightarrow> False = isNaN (time_value t)"

text \<open>
  \<^verbatim>\<open>get computed()\<close>: \<^verbatim>\<open>null\<close> (\<open>None\<close>) for \<open>NaN\<close>. The cache of the source maps a value
  to the breakdown computed for it before.
\<close>

type_synonym cache = "jsnum \<Rightarrow> computed option"

definition computed_cached :: "cache \<Rightarrow> Time \<Rightarrow> computed option \<times> cache" where
  "computed_cached cache t =
    (if isNaN (time_value t) then (None, cache)
     else (let c = (case cache (time_value t) of
                      Some c' \<Rightarrow> c'
                    | None \<Rightarrow> getComputedTime (time_value t))
           in (Some c, cache(time_value t \<mapsto> c))))"

definition Time_computed :: "Time \<Rightarrow> computed option" where
  "Time_computed t =
    (if isNaN (time_value t) then None else Some (getComputedTime (time_value t)))"

text \<open>
  The accessors \<^verbatim>\<open>hours\<close>, \<^verbatim>\<open>minutes\<close>, \<^verbatim>\<open>totalSeconds\<close> and so on read a field of
  \<^verbatim>\<open>this.computed\<close>, which throws a \<^verbatim>\<open>TypeError\<close> when it is \<^verbatim>\<open>null\<close>.
\<close>

definition Time_get :: "(computed \<Rightarrow> jsnum) \<Rightarrow> Time \<Rightarrow> error + jsnum" where
  "Time_get field t =
    (case Time_computed t of None \<Rightarrow> Inl TypeError | Some c \<Rightarrow> Inr (field c))"

text \<open>
  \<^verbatim>\<open>set(value)\<close>: \<^verbatim>\<open>Number.isNaN(value)\<close> holds for the number \<open>NaN\<close> alone, and
  \<^verbatim>\<open>null != value\<close> fails for \<^verbatim>\<open>null\<close> and \<^verbatim>\<open>undefined\<close>.
\<close>

definition Time_set :: "parser \<Rightarrow> Time \<Rightarrow> jsval \<Rightarrow> error + Time" where
  "Time_set parse t v =
    (if v \<noteq> JNumber NaN \<and> v \<noteq> JNull \<and> v \<noteq> JUndefined
     then (case Time_from parse v of
             Inl e \<Rightarrow> Inl e
           | Inr temp \<Rightarrow> Inr (t\<lparr> time_value := time_value temp \<rparr>))
     else Inr t)"

definition Time_reset :: "Time \<Rightarrow> Time" where
  "Time_reset t = t\<lparr> time_value := NaN \<rparr>"

definition Time_valueOf :: "Time \<Rightarrow> jsnum" where
  "Time_valueOf t = time_value t"

text \<open>
  The suffix of the seconds:
  \<^verbatim>\<open>computed.ms ? `.${String(computed.ms/1000).slice(2)}` : ''\<close>
\<close>

definition ms_suffix :: "(rat \<Rightarrow> string) \<Rightarrow> computed \<Rightarrow> string" where
  "ms_suffix numstr c =
    (if truthy_num (ms c) then ''.'' @ drop 2 (String_num numstr (js_div (ms c) (Num 1000)))
     else [])"

text \<open>
  \<^verbatim>\<open>toString(format)\<close>. The format is a string or absent (\<open>None\<close>);
  \<^verbatim>\<open>format || 'hh:mm:ss'\<close> replaces an absent and an empty one.
\<close>

definition Time_toString :: "(rat \<Rightarrow> string) \<Rightarrow> Time \<Rightarrow> string option \<Rightarrow> string" where
  "Time_toString numstr t format =
    (let format' = (case format of
                      None \<Rightarrow> ''hh:mm:ss''
                    | Some f \<Rightarrow> if f = [] then ''hh:mm:ss'' else f)
     in if Num (- 1) = time_value t then ''now''
        else if isNaN (time_value t) then []
        else (case Time_computed t of
                None \<Rightarrow> []
              | Some c \<Rightarrow>
                  trim (strip_tokens
                    (replace_first ''s'' (String_num numstr (seconds c) @ ms_suffix numstr c)
                    (replace_first ''m'' (String_num numstr (minutes c))
                    (replace_first ''h'' (String_num numstr (hours c))
                    (replace_first ''ss''
                       (padStart 2 (String_num numstr (seconds c)) @ ms_suffix numstr c)
                    (replace_first ''mm'' (padStart 2 (String_num numstr (minutes c)))
                    (replace_first ''hh'' (padStart 2 (String_num numstr (hours c)))
                    (replace_first ''H'' (String_num numstr (totalHours c))
                    (replace_first ''M'' (String_num numstr (totalMinutes c))
                    (replace_first ''S'' (String_num numstr (totalSeconds c))
                       format'))))))))))))"

section \<open>Range and Timecode\<close>

record Range =
  start :: Time
  stop :: Time

text \<open>
  \<^verbatim>\<open>set(start, stop)\<close>. The comparison \<^verbatim>\<open>this.stop < this.start\<close> converts both ends with
  \<^verbatim>\<open>valueOf\<close>. An exception leaves the method at once.
\<close>

definition Range_set :: "parser \<Rightarrow> Range \<Rightarrow> jsval \<Rightarrow> jsval \<Rightarrow> error + Range" where
  "Range_set parse r a b =
    (case Time_set parse (start r) a of
       Inl e \<Rightarrow> Inl e
     | Inr s \<Rightarrow>
        (let r1 = r\<lparr> start := s \<rparr>
         in if truthy b
            then (case Time_set parse (stop r1) b of
                    Inl e \<Rightarrow> Inl e
                  | Inr t \<Rightarrow>
                     (let r2 = r1\<lparr> stop := t \<rparr>
                      in if js_lt (Time_valueOf (stop r2)) (Time_valueOf (start r2))
                         then (case Time_set parse (stop r2) (JNumber NaN) of
                                 Inl e \<Rightarrow> Inl e
                               | Inr t' \<Rightarrow> Inr (r2\<lparr> stop := t' \<rparr>))
                         else Inr r2))
            else Inr r1))"

text \<open>\<^verbatim>\<open>constructor(start, stop)\<close>: both ends are \<^verbatim>\<open>Time.from()\<close>, then \<^verbatim>\<open>set\<close>.\<close>

definition Range_new :: "parser \<Rightarrow> jsval \<Rightarrow> jsval \<Rightarrow> error + Range" where
  "Range_new parse a b =
    (case Time_from parse JUndefined of
       Inl e \<Rightarrow> Inl e
     | Inr s \<Rightarrow>
        (case Time_from parse JUndefined of
           Inl e \<Rightarrow> Inl e
         | Inr t \<Rightarrow> Range_set parse \<lparr> start = s, stop = t \<rparr> a b))"

text \<open>An element of an argument list or of an array; \<^verbatim>\<open>undefined\<close> past the end.\<close>

definition element :: "jsval list \<Rightarrow> nat \<Rightarrow> jsval" where
  "element xs i = (if i < length xs then xs ! i else JUndefined)"

text \<open>
  The properties \<^verbatim>\<open>start\<close> and \<^verbatim>\<open>stop\<close> of an object (\<^verbatim>\<open>typeof\<close> is \<^verbatim>\<open>'object'\<close> and the
  value is truthy, an array apart).
\<close>

fun start_stop :: "jsval \<Rightarrow> (jsval \<times> jsval) option" where
  "start_stop (JStartStop a b) = Some (a, b)"
| "start_stop (JObject kvs) =
     Some (case map_of kvs ''start'' of None \<Rightarrow> JUndefined | Some n \<Rightarrow> JNumber n,
           case map_of kvs ''stop'' of None \<Rightarrow> JUndefined | Some n \<Rightarrow> JNumber n)"
| "start_stop _ = None"

text \<open>
  \<^verbatim>\<open>static from(...args)\<close>: the two values that reach the constructor. A string is split
  at every hyphen and the first two pieces are taken.
\<close>

definition Range_args :: "jsval list \<Rightarrow> jsval \<times> jsval" where
  "Range_args args =
    (case element args 0 of
       JArray xs \<Rightarrow> (element xs 0, element xs 1)
     | a0 \<Rightarrow>
        (case start_stop a0 of
           Some (a, b) \<Rightarrow> (a, b)
         | None \<Rightarrow>
            if length args = 1
            then (case a0 of
                    JString s \<Rightarrow>
                      (let pieces = map JString (split (CHR ''-'') s)
                       in (element pieces 0, element pieces 1))
                  | _ \<Rightarrow> (a0, JNull))
            else (element args 0, element args 1)))"

definition Range_from :: "parser \<Rightarrow> jsval list \<Rightarrow> error + Range" where
  "Range_from parse args = (case Range_args args of (a, b) \<Rightarrow> Range_new parse a b)"

definition Range_reset :: "Range \<Rightarrow> Range" where
  "Range_reset r = r\<lparr> start := Time_reset (start r), stop := Time_reset (stop r) \<rparr>"

text \<open>
  \<^verbatim>\<open>toString(format)\<close>: a string is truthy when it is not empty; \<^verbatim>\<open>this.stop >= this.start\<close>
  compares the values of the two ends.
\<close>

definition Range_toString :: "(rat \<Rightarrow> string) \<Rightarrow> Range \<Rightarrow> string option \<Rightarrow> string" where
  "Range_toString numstr r format =
    (let start' = Time_toString numstr (start r) format;
         stop' = Time_toString numstr (stop r) format
     in if start' \<noteq> [] \<and> stop' \<noteq> [] \<and> js_ge (Time_valueOf (stop r)) (Time_valueOf (start r))
        then start' @ ''-'' @ stop'
        else if start' \<noteq> [] then start' @ ''-''
        else if stop' \<noteq> [] then ''-'' @ stop'
        else [])"

text \<open>
  \<^verbatim>\<open>Timecode\<close> extends \<^verbatim>\<open>Range\<close> with \<^verbatim>\<open>valueOf()\<close> alone; \<^verbatim>\<open>Timecode.from\<close> is the inherited
  factory.
\<close>

type_synonym Timecode = Range

definition Timecode_from :: "parser \<Rightarrow> jsval list \<Rightarrow> error + Timecode" where
  "Timecode_from parse args = Range_from parse args"

definition Timecode_valueOf :: "Timecode \<Rightarrow> jsnum" where
  "Timecode_valueOf tc =
    (if isNow (start tc) then NOW
     else if \<not> truthy_num (time_value (start tc)) \<and> isNow (stop tc) then NOW
     else if js_lt (Time_valueOf (start tc)) (Time_valueOf (stop tc))
     then js_sub (Time_valueOf (stop tc)) (Time_valueOf (start tc))
     else js_add (Num 0) (Time_valueOf (start tc)))"

section \<open>Auxiliary definitions\<close>

text \<open>The rational that \<^verbatim>\<open>x || 0\<close> stands for: \<open>0\<close> for an absent, a zero or a \<open>NaN\<close> property.\<close>

definition field0 :: "jsnum option \<Rightarrow> rat" where
  "field0 x = (case x of Some (Num r) \<Rightarrow> r | _ \<Rightarrow> 0)"

text \<open>
  For closed instances: a parser that rejects every text, and a printer that gives the
  empty text to the numbers that \<open>String_num\<close> leaves to its parameter.
\<close>

definition parse_nothing :: parser where
  "parse_nothing s = None"

definition numstr_unused :: "rat \<Rightarrow> string" where
  "numstr_unused r = []"




section \<open>Definitions that follow the specification\<close>


text \<open>
  The recomposition in the words of the specification: \<^verbatim>\<open>ms\<close> is an alias of
  \<^verbatim>\<open>milliseconds\<close>, and \<^verbatim>\<open>milliseconds\<close> takes precedence when both are given.
\<close>

definition recompose_spec :: "jsval \<Rightarrow> jsnum" where
  "recompose_spec parts =
    (let p = spread parts;
         ms' = (case map_of p ''milliseconds'' of None \<Rightarrow> map_of p ''ms'' | Some x \<Rightarrow> Some x)
     in Num (field0 (map_of p ''hours'') * 3600 + field0 (map_of p ''minutes'') * 60
             + field0 (map_of p ''seconds'') + field0 ms' / 1000))"

text \<open>
  The rendering of a range in the words of the specification: \<open>start-\<close> when only the
  start is not empty, \<open>-stop\<close> when only the stop is not empty.
\<close>

definition Range_toString_spec :: "(rat \<Rightarrow> string) \<Rightarrow> Range \<Rightarrow> string option \<Rightarrow> string" where
  "Range_toString_spec numstr r format =
    (let start' = Time_toString numstr (start r) format;
         stop' = Time_toString numstr (stop r) format
     in if start' \<noteq> [] \<and> stop' \<noteq> [] \<and> js_ge (Time_valueOf (stop r)) (Time_valueOf (start r))
        then start' @ ''-'' @ stop'
        else if start' \<noteq> [] \<and> stop' = [] then start' @ ''-''
        else if stop' \<noteq> [] \<and> start' = [] then ''-'' @ stop'
        else [])"

section \<open>Facts about the decomposition\<close>




lemma or0_field0: "or0 x = Num (field0 x)"
  by (cases x; cases "the x") (auto simp: field0_def)






section \<open>The decomposition and its inverse\<close>


text \<open>
  C5, amended. For every parts object, \<open>getComputedSeconds\<close> returns
  \<open>hours*3600 + minutes*60 + seconds + (ms || 0)/1000\<close>, where a missing (or zero or
  \<open>NaN\<close>) field counts as \<open>0\<close> and where \<open>ms\<close> is the property \<^verbatim>\<open>ms\<close> when it is given and
  the property \<^verbatim>\<open>milliseconds\<close> only when \<^verbatim>\<open>ms\<close> is absent: when both are given, \<^verbatim>\<open>ms\<close>
  takes precedence.
\<close>

theorem getComputedSeconds_formula:
  "getComputedSeconds opts =
     Num (field0 (map_of (spread opts) ''hours'') * 3600
          + field0 (map_of (spread opts) ''minutes'') * 60
          + field0 (map_of (spread opts) ''seconds'')
          + field0 (case map_of (spread opts) ''ms'' of
                      None \<Rightarrow> map_of (spread opts) ''milliseconds''
                    | Some x \<Rightarrow> Some x) / 1000)"
  unfolding getComputedSeconds_def Let_def or0_field0 by simp

text \<open>
  C5 as stated fails: with \<^verbatim>\<open>milliseconds\<close> 500 and \<^verbatim>\<open>ms\<close> 250 the source returns a quarter
  of a second, and the precedence of \<^verbatim>\<open>milliseconds\<close> would give half a second.
\<close>

theorem getComputedSeconds_precedence_counterexample:
  "getComputedSeconds (JObject [(''milliseconds'', Num 500), (''ms'', Num 250)]) = Num (1 / 4)
   \<and> recompose_spec (JObject [(''milliseconds'', Num 500), (''ms'', Num 250)]) = Num (1 / 2)
   \<and> getComputedSeconds (JObject [(''milliseconds'', Num 500), (''ms'', Num 250)])
       \<noteq> recompose_spec (JObject [(''milliseconds'', Num 500), (''ms'', Num 250)])"
  by (simp add: getComputedSeconds_def recompose_spec_def field0_def)



section \<open>Facts about Time and Range\<close>

lemma Time_set_NaN: "Time_set parse t (JNumber NaN) = Inr t"
  by (simp add: Time_set_def)

lemma has_parts_JObject:
  "has_parts (JObject kvs) =
     Inr (map_of kvs ''hours'' \<noteq> None \<or> map_of kvs ''minutes'' \<noteq> None \<or> map_of kvs ''seconds'' \<noteq> None)"
  by (simp add: has_parts_def split: bool.splits)

lemma has_parts_other:
  "has_parts (JArray xs) = Inr False"
  "has_parts (JStartStop x y) = Inr False"
  "has_parts (JBool b) = Inl TypeError"
  by (simp_all add: has_parts_def)

lemma Time_from_JObject:
  "Time_from parse (JObject kvs) =
     Inr (Time_new (case map_of kvs ''value'' of
            Some v \<Rightarrow> v
          | None \<Rightarrow>
              if map_of kvs ''hours'' \<noteq> None \<or> map_of kvs ''minutes'' \<noteq> None \<or> map_of kvs ''seconds'' \<noteq> None
              then getComputedSeconds (JObject kvs) else NaN))"
  by (simp add: Time_from_def has_parts_JObject split: option.splits)

lemma Time_from_simps:
  "Time_from parse JUndefined = Inr (Time_new NaN)"
  "Time_from parse JNull = Inr (Time_new NaN)"
  "Time_from parse (JBool False) = Inr (Time_new NaN)"
  "Time_from parse (JBool True) = Inl TypeError"
  "Time_from parse (JNumber n) = Inr (Time_new n)"
  "Time_from parse (JArray xs) = Inr (Time_new NaN)"
  "Time_from parse (JStartStop x y) = Inr (Time_new NaN)"
  "Time_from parse (JString ''now'') = Inr (Time_new NOW)"
  by (cases n; simp add: Time_from_def has_parts_other)+

lemma Time_from_JString:
  "Time_from parse (JString s) =
     Inr (Time_new (if s = ''now'' then NOW
                    else case parse s of None \<Rightarrow> NaN
                         | Some parsed \<Rightarrow> if truthy_num parsed then js_div parsed (Num 1000) else NaN))"
  by (simp add: Time_from_def split: option.splits)

lemma Time_from_throws_iff: "Time_from parse a = Inl e \<longleftrightarrow> a = JBool True"
proof (cases a)
  case (JBool b) then show ?thesis by (cases b; cases e) (simp_all add: Time_from_simps)
qed (simp_all add: Time_from_simps Time_from_JObject Time_from_JString)

lemma Time_set_throws_iff: "Time_set parse t a = Inl e \<longleftrightarrow> a = JBool True"
proof (cases "Time_from parse a")
  case (Inl e')
  then have "a = JBool True" by (simp add: Time_from_throws_iff)
  then show ?thesis by (cases e) (simp add: Time_set_def Time_from_simps)
next
  case (Inr t')
  then have "a \<noteq> JBool True" by (auto simp: Time_from_simps)
  then show ?thesis using Inr by (simp add: Time_set_def)
qed

lemma Range_set_eq:
  "Range_set parse r a b =
    (case Time_set parse (start r) a of
       Inl e \<Rightarrow> Inl e
     | Inr s \<Rightarrow>
        if truthy b
        then (case Time_set parse (stop r) b of
                Inl e \<Rightarrow> Inl e
              | Inr t \<Rightarrow> Inr \<lparr> start = s, stop = t \<rparr>)
        else Inr \<lparr> start = s, stop = stop r \<rparr>)"
  by (cases r) (simp add: Range_set_def Let_def Time_set_NaN split: sum.splits)

lemma Range_new_eq:
  "Range_new parse a b = Range_set parse \<lparr> start = Time_new NaN, stop = Time_new NaN \<rparr> a b"
  by (simp add: Range_new_def Time_from_simps)

lemma error_eq: "(x :: error) = y"
  by (cases x; cases y) simp

lemma Range_set_throws_iff:
  "Range_set parse r a b = Inl e \<longleftrightarrow> a = JBool True \<or> b = JBool True"
proof (cases "Time_set parse (start r) a")
  case (Inl e')
  then have "a = JBool True" by (simp add: Time_set_throws_iff)
  then show ?thesis using Inl by (simp add: Range_set_eq error_eq [of e' e])
next
  case a: (Inr s)
  then have na: "a \<noteq> JBool True" using Time_set_throws_iff [of parse "start r" a] by auto
  show ?thesis
  proof (cases "Time_set parse (stop r) b")
    case (Inl e')
    then have "b = JBool True" by (simp add: Time_set_throws_iff)
    then show ?thesis using a Inl by (simp add: Range_set_eq error_eq [of e' e])
  next
    case (Inr t)
    then have "b \<noteq> JBool True" using Time_set_throws_iff [of parse "stop r" b] by auto
    then show ?thesis using a na Inr by (simp add: Range_set_eq)
  qed
qed


lemma Time_set_Inr:
  "a \<noteq> JBool True \<Longrightarrow>
   Time_set parse t a =
     Inr (if a \<noteq> JNumber NaN \<and> a \<noteq> JNull \<and> a \<noteq> JUndefined
          then (case Time_from parse a of Inr t' \<Rightarrow> t\<lparr> time_value := time_value t' \<rparr> | Inl e \<Rightarrow> t)
          else t)"
  using Time_from_throws_iff [of parse a]
  by (cases "Time_from parse a") (auto simp: Time_set_def)

lemma Time_update_new: "(t :: Time)\<lparr> time_value := v \<rparr> = Time_new v"
  by (cases t) (simp add: Time_new_def)

lemma time_value_new: "time_value (Time_new v) = v"
  by (simp add: Time_new_def)

lemma toString_30423: "Time_toString numstr (Time_new (Num (30423 / 1000))) None = ''00:00:30.423''"
  by code_simp

lemma toString_29987: "Time_toString numstr (Time_new (Num (29987 / 1000))) None = ''00:00:29.987''"
  by code_simp

lemma toString_60789: "Time_toString numstr (Time_new (Num (60789 / 1000))) None = ''00:01:00.789''"
  by code_simp

lemma toString_NOW: "Time_toString numstr (Time_new NOW) format = ''now''"
  by (simp add: Time_toString_def Time_new_def NOW_def)

lemma toString_NaN: "Time_toString numstr (Time_new NaN) format = []"
  by (simp add: Time_toString_def Time_new_def)



text \<open>
  The cache is transparent: while it holds only breakdowns computed by \<open>getComputedTime\<close>,
  the accessor returns what \<open>Time_computed\<close> returns, and the cache stays so.
\<close>

lemma computed_cached_agrees:
  assumes "\<forall>v c. cache v = Some c \<longrightarrow> c = getComputedTime v"
  shows "fst (computed_cached cache t) = Time_computed t"
    and "\<forall>v c. snd (computed_cached cache t) v = Some c \<longrightarrow> c = getComputedTime v"
  using assms
  by (auto simp: computed_cached_def Time_computed_def Let_def split: option.splits)

section \<open>The tests of the repository\<close>

text \<open>
  The expectations of the test suite of the repository that do not go through the
  parser, evaluated on the model.
\<close>

lemma test_Time_1:
  "getComputedTime (Num 1) =
     \<lparr> totalMilliseconds = Num (1 / 1000), totalSeconds = Num 1, totalMinutes = Num (1 / 60),
       totalHours = Num (1 / 3600), milliseconds = Num 0, seconds = Num 1, minutes = Num 0,
       hours = Num 0, ms = Num 0 \<rparr>"
  by code_simp

lemma test_Time_parts:
  "Time_from parse (JObject [(''hours'', Num 3), (''minutes'', Num 30), (''seconds'', Num (4532 / 100))])
     = Inr (Time_new (Num (1264532 / 100)))"
  "getComputedTime (Num (1264532 / 100)) =
     \<lparr> totalMilliseconds = Num (1264532 / 100000), totalSeconds = Num (1264532 / 100),
       totalMinutes = Num (1264532 / 6000), totalHours = Num (1264532 / 360000),
       milliseconds = Num 320, seconds = Num 45, minutes = Num 30, hours = Num 3, ms = Num 320 \<rparr>"
  by code_simp+

lemma test_Time_formats:
  "Time_toString numstr (Time_new (Num 1)) (Some ''s'') = ''1''"
  "Time_toString numstr (Time_new (Num 1)) (Some ''mm:ss'') = ''00:01''"
  "Time_toString numstr (Time_new (Num (123 / 100))) (Some ''s'') = ''1.23''"
  "Time_toString numstr (Time_new (Num (2229023 / 100))) (Some ''hh:mm:ss'') = ''06:11:30.23''"
  "Time_toString numstr (Time_new (Num (2229023 / 100))) (Some ''hh:mm'') = ''06:11''"
  by code_simp+

lemma test_Time_unset:
  "Time_from parse JUndefined = Inr (Time_new NaN)"
  "Time_computed (Time_new NaN) = None"
  "Time_get hours (Time_new NaN) = Inl TypeError"
  "Time_set parse (Time_new NaN) (JNumber (Num 5)) = Inr (Time_new (Num 5))"
  "Time_get seconds (Time_new (Num 5)) = Inr (Num 5)"
  by code_simp+

lemma test_Range:
  "Range_from parse [] = Inr \<lparr> start = Time_new NaN, stop = Time_new NaN \<rparr>"
  "Range_toString numstr \<lparr> start = Time_new NaN, stop = Time_new NaN \<rparr> None = []"
  "Range_toString numstr \<lparr> start = Time_new NOW, stop = Time_new NaN \<rparr> None = ''now-''"
  "Range_toString numstr \<lparr> start = Time_new NaN, stop = Time_new NOW \<rparr> None = ''-now''"
  "Range_reset \<lparr> start = Time_new NOW, stop = Time_new (Num 3) \<rparr>
     = \<lparr> start = Time_new NaN, stop = Time_new NaN \<rparr>"
  by code_simp+

lemma test_Timecode:
  "map_sum id Timecode_valueOf (Timecode_from parse [JNumber NOW]) = Inr NOW"
  "map_sum id Timecode_valueOf (Timecode_from parse [JNumber (Num 0), JNumber NOW]) = Inr NOW"
  "map_sum id Timecode_valueOf (Timecode_from parse [JNumber (Num 60)]) = Inr (Num 60)"
  by code_simp+

section \<open>Facts about the text of a time\<close>

































section \<open>Properties of Time\<close>






text \<open>
  C10. The number \<open>-1\<close> is the now time: \<^verbatim>\<open>Time.from(-1)\<close> is the same time as
  \<^verbatim>\<open>Time.from('now')\<close>, it is now and its text is \<^verbatim>\<open>now\<close>. Every other number that is
  not \<open>NaN\<close> (negative or not) gives a valid time with that value that is not now.
\<close>

theorem Time_from_minus_one:
  "Time_from parse (JNumber (Num (- 1))) = Inr (Time_new NOW)
   \<and> Time_from parse (JNumber (Num (- 1))) = Time_from parse (JString ''now'')
   \<and> isNow (Time_new NOW)
   \<and> Time_toString numstr (Time_new NOW) format = ''now''
   \<and> (\<forall>r. r \<noteq> - 1 \<longrightarrow>
         Time_from parse (JNumber (Num r)) = Inr (Time_new (Num r))
         \<and> \<not> isNow (Time_new (Num r)) \<and> isValid (Time_new (Num r)))"
  by (simp add: Time_from_simps NOW_def isNow_def isValid_def Time_new_def Time_toString_def)

theorem Time_from_minus_one_witness:
  "Time_from parse_nothing (JNumber (Num (- 2))) = Inr (Time_new (Num (- 2)))
   \<and> \<not> isNow (Time_new (Num (- 2))) \<and> isValid (Time_new (Num (- 2)))"
proof -
  have h: "(- 2 :: rat) \<noteq> - 1" by simp
  from Time_from_minus_one [of parse_nothing numstr_unused None] h show ?thesis by blast
qed

section \<open>Properties of Range and Timecode\<close>

text \<open>
  C2. \<open>Timecode.valueOf\<close> returns the now value \<open>-1\<close> when the start is now; else the now
  value when the start value is falsy (\<open>0\<close> or \<open>NaN\<close>) and the stop is now; else
  \<open>stop - start\<close> when \<open>start < stop\<close>; else the value of the start. The cases are tried in
  this order; \<^verbatim>\<open>Timecode.from(30, 90).valueOf()\<close> is \<open>60\<close> and
  \<^verbatim>\<open>Timecode.from('now-').valueOf()\<close> is \<open>-1\<close>.
\<close>

theorem Timecode_valueOf_cases:
  "(isNow (start tc) \<longrightarrow> Timecode_valueOf tc = NOW)
   \<and> (\<not> isNow (start tc) \<and> \<not> truthy_num (time_value (start tc)) \<and> isNow (stop tc) \<longrightarrow>
        Timecode_valueOf tc = NOW)
   \<and> (\<forall>a b. \<not> isNow (start tc) \<and> \<not> (\<not> truthy_num (time_value (start tc)) \<and> isNow (stop tc))
          \<and> time_value (start tc) = Num a \<and> time_value (stop tc) = Num b \<and> a < b \<longrightarrow>
        Timecode_valueOf tc = Num (b - a))
   \<and> (\<not> isNow (start tc) \<and> \<not> (\<not> truthy_num (time_value (start tc)) \<and> isNow (stop tc))
        \<and> \<not> js_lt (time_value (start tc)) (time_value (stop tc)) \<longrightarrow>
        Timecode_valueOf tc = time_value (start tc))
   \<and> map_sum id Timecode_valueOf (Timecode_from parse [JNumber (Num 30), JNumber (Num 90)])
        = Inr (Num 60)
   \<and> map_sum id Timecode_valueOf (Timecode_from parse [JString ''now-'']) = Inr (Num (- 1))"
proof (intro conjI allI impI)
  show "map_sum id Timecode_valueOf (Timecode_from parse [JNumber (Num 30), JNumber (Num 90)])
        = Inr (Num 60)"
    by (simp add: Timecode_from_def Range_from_def Range_args_def element_def Range_new_eq
        Range_set_eq Time_set_def Time_from_simps Time_new_def Timecode_valueOf_def isNow_def
        NOW_def Time_valueOf_def)
  have "split (CHR ''-'') ''now-'' = [''now'', []]" by simp
  then show "map_sum id Timecode_valueOf (Timecode_from parse [JString ''now-'']) = Inr (Num (- 1))"
    by (simp add: Timecode_from_def Range_from_def Range_args_def element_def Range_new_eq
        Range_set_eq Time_set_def Time_from_simps Time_new_def Timecode_valueOf_def isNow_def
        NOW_def Time_valueOf_def)
next
  assume "\<not> isNow (start tc) \<and> \<not> (\<not> truthy_num (time_value (start tc)) \<and> isNow (stop tc))
        \<and> \<not> js_lt (time_value (start tc)) (time_value (stop tc))"
  then show "Timecode_valueOf tc = time_value (start tc)"
    by (cases "time_value (start tc)") (auto simp: Timecode_valueOf_def Time_valueOf_def)
qed (auto simp: Timecode_valueOf_def Time_valueOf_def)

theorem Timecode_valueOf_cases_witness:
  "Timecode_valueOf \<lparr> start = Time_new (Num (- 1)), stop = Time_new (Num 5) \<rparr> = Num (- 1)
   \<and> Timecode_valueOf \<lparr> start = Time_new (Num 0), stop = Time_new (Num (- 1)) \<rparr> = Num (- 1)
   \<and> Timecode_valueOf \<lparr> start = Time_new (Num 30), stop = Time_new (Num 90) \<rparr> = Num 60
   \<and> Timecode_valueOf \<lparr> start = Time_new (Num 90), stop = Time_new NaN \<rparr> = Num 90"
proof (intro conjI)
  show "Timecode_valueOf \<lparr> start = Time_new (Num (- 1)), stop = Time_new (Num 5) \<rparr> = Num (- 1)"
    using Timecode_valueOf_cases [of "\<lparr> start = Time_new (Num (- 1)), stop = Time_new (Num 5) \<rparr>" parse_nothing]
    by (simp add: isNow_def NOW_def Time_new_def)
  show "Timecode_valueOf \<lparr> start = Time_new (Num 0), stop = Time_new (Num (- 1)) \<rparr> = Num (- 1)"
    using Timecode_valueOf_cases [of "\<lparr> start = Time_new (Num 0), stop = Time_new (Num (- 1)) \<rparr>" parse_nothing]
    by (simp add: isNow_def NOW_def Time_new_def)
  show "Timecode_valueOf \<lparr> start = Time_new (Num 30), stop = Time_new (Num 90) \<rparr> = Num 60"
    using Timecode_valueOf_cases [of "\<lparr> start = Time_new (Num 30), stop = Time_new (Num 90) \<rparr>" parse_nothing]
    by (simp add: isNow_def NOW_def Time_new_def)
  show "Timecode_valueOf \<lparr> start = Time_new (Num 90), stop = Time_new NaN \<rparr> = Num 90"
    using Timecode_valueOf_cases [of "\<lparr> start = Time_new (Num 90), stop = Time_new NaN \<rparr>" parse_nothing]
    by (simp add: isNow_def NOW_def Time_new_def)
qed

text \<open>
  C3. \<open>Range.set\<close> sets the start through \<open>Time.set\<close> and touches the stop only when the
  stop input is truthy; it then means to force a stop that is less than the start to
  \<open>NaN\<close>, by \<^verbatim>\<open>this.stop.set(Number.NaN)\<close>. But \<open>Time.set\<close> ignores \<open>NaN\<close>: after
  \<^verbatim>\<open>set(30.423, 29.987)\<close> on any range the stop is the valid time \<open>29.987\<close>, not \<open>NaN\<close>. The
  text of the range is \<^verbatim>\<open>00:00:30.423-\<close> all the same, because \<open>Range.toString\<close> drops a
  stop that is less than the start.
\<close>

theorem Range_set_stop_before_start:
  "Range_set parse r (JNumber (Num (30423 / 1000))) (JNumber (Num (29987 / 1000))) =
     Inr \<lparr> start = Time_new (Num (30423 / 1000)), stop = Time_new (Num (29987 / 1000)) \<rparr>
   \<and> isValid (Time_new (Num (29987 / 1000)))
   \<and> time_value (Time_new (Num (29987 / 1000))) \<noteq> NaN
   \<and> Time_set parse t (JNumber NaN) = Inr t
   \<and> Range_toString numstr
        \<lparr> start = Time_new (Num (30423 / 1000)), stop = Time_new (Num (29987 / 1000)) \<rparr> None
       = ''00:00:30.423-''"
  by (simp add: Range_set_eq Time_set_def Time_from_simps Time_update_new isValid_def
      Range_toString_def toString_30423 toString_29987 Time_valueOf_def)
    (simp add: Time_new_def)

text \<open>
  C4. A now end of a range is never invalidated by the other end. Whenever
  \<open>Range.set\<close> returns: a start input that \<open>Time.from\<close> reads as now leaves the start now,
  and a truthy stop input that \<open>Time.from\<close> reads as now leaves the stop now, whatever the
  other end is; an end that is not set keeps its time; and the stop that was set holds the
  value of its input, so it is never forced invalid.
\<close>

theorem Range_set_keeps_now:
  assumes "Range_set parse r a b = Inr r'"
  shows "((\<exists>t. Time_from parse a = Inr t \<and> isNow t) \<longrightarrow> isNow (start r'))
    \<and> (truthy b \<and> (\<exists>t. Time_from parse b = Inr t \<and> isNow t) \<longrightarrow> isNow (stop r'))
    \<and> (a = JNumber NaN \<or> a = JNull \<or> a = JUndefined \<longrightarrow> start r' = start r)
    \<and> (\<not> truthy b \<longrightarrow> stop r' = stop r)
    \<and> (truthy b \<longrightarrow> (\<exists>t. Time_from parse b = Inr t \<and> time_value (stop r') = time_value t))"
proof -
  have na: "a \<noteq> JBool True" and nb: "b \<noteq> JBool True"
    using assms Range_set_throws_iff [of parse r a b TypeError] by auto
  obtain ta where ta: "Time_from parse a = Inr ta"
    using na Time_from_throws_iff [of parse a] by (cases "Time_from parse a") auto
  obtain tb where tb: "Time_from parse b = Inr tb"
    using nb Time_from_throws_iff [of parse b] by (cases "Time_from parse b") auto
  have tr: "truthy b \<Longrightarrow> b \<noteq> JNumber NaN \<and> b \<noteq> JNull \<and> b \<noteq> JUndefined" by auto
  have nowa: "isNow ta \<Longrightarrow> a \<noteq> JNumber NaN \<and> a \<noteq> JNull \<and> a \<noteq> JUndefined"
    using ta by (auto simp: Time_from_simps isNow_def NOW_def Time_new_def)
  have r': "r' = \<lparr> start = (if a \<noteq> JNumber NaN \<and> a \<noteq> JNull \<and> a \<noteq> JUndefined
                             then Time_new (time_value ta) else start r),
                   stop = (if truthy b then Time_new (time_value tb) else stop r) \<rparr>"
    using assms tr by (auto simp: Range_set_eq Time_set_Inr [OF na] Time_set_Inr [OF nb] ta tb Time_update_new)
  show ?thesis
    using nowa by (auto simp: r' ta tb isNow_def Time_new_def)
qed

theorem Range_set_keeps_now_witness:
  "isNow (stop \<lparr> start = Time_new (Num 5), stop = Time_new NOW \<rparr>)
   \<and> Range_from parse_nothing [JNumber (Num 5), JString ''now''] =
       Inr \<lparr> start = Time_new (Num 5), stop = Time_new NOW \<rparr>"
proof -
  have h: "Range_set parse_nothing \<lparr> start = Time_new NaN, stop = Time_new NaN \<rparr>
             (JNumber (Num 5)) (JString ''now'') =
           Inr \<lparr> start = Time_new (Num 5), stop = Time_new NOW \<rparr>"
    by (simp add: Range_set_eq Time_set_def Time_from_simps Time_update_new time_value_new)
  have f: "Time_from parse_nothing (JString ''now'') = Inr (Time_new NOW) \<and> isNow (Time_new NOW)"
    by (simp add: Time_from_simps isNow_def Time_new_def)
  have "isNow (stop \<lparr> start = Time_new (Num 5), stop = Time_new NOW \<rparr>)"
    using Range_set_keeps_now [OF h] f by auto
  moreover have "Range_from parse_nothing [JNumber (Num 5), JString ''now''] =
       Inr \<lparr> start = Time_new (Num 5), stop = Time_new NOW \<rparr>"
    using h by (simp add: Range_from_def Range_args_def element_def Range_new_eq)
  ultimately show ?thesis by simp
qed

text \<open>
  C7, amended. \<open>Range.toString\<close> formats each end with \<open>Time.toString\<close>. When both texts
  are not empty and \<open>stop >= start\<close> it returns \<^verbatim>\<open>start-stop\<close>; else, when the start text is
  not empty (whether the stop text is empty or not), it returns \<^verbatim>\<open>start-\<close>; else, when the
  stop text is not empty, it returns \<^verbatim>\<open>-stop\<close>; else it returns the empty string.
\<close>

theorem Range_toString_cases:
  "(Time_toString numstr (start r) format \<noteq> [] \<and> Time_toString numstr (stop r) format \<noteq> []
      \<and> js_ge (time_value (stop r)) (time_value (start r)) \<longrightarrow>
    Range_toString numstr r format =
      Time_toString numstr (start r) format @ ''-'' @ Time_toString numstr (stop r) format)
   \<and> (Time_toString numstr (start r) format \<noteq> []
      \<and> \<not> (Time_toString numstr (stop r) format \<noteq> []
             \<and> js_ge (time_value (stop r)) (time_value (start r))) \<longrightarrow>
    Range_toString numstr r format = Time_toString numstr (start r) format @ ''-'')
   \<and> (Time_toString numstr (start r) format = [] \<and> Time_toString numstr (stop r) format \<noteq> [] \<longrightarrow>
    Range_toString numstr r format = ''-'' @ Time_toString numstr (stop r) format)
   \<and> (Time_toString numstr (start r) format = [] \<and> Time_toString numstr (stop r) format = [] \<longrightarrow>
    Range_toString numstr r format = [])"
  by (simp add: Range_toString_def Let_def Time_valueOf_def)

theorem Range_toString_cases_witness:
  "Range_toString numstr_unused
      \<lparr> start = Time_new (Num (30423 / 1000)), stop = Time_new (Num (60789 / 1000)) \<rparr> None
     = ''00:00:30.423-00:01:00.789''
   \<and> Range_toString numstr_unused
      \<lparr> start = Time_new (Num (30423 / 1000)), stop = Time_new (Num (29987 / 1000)) \<rparr> None
     = ''00:00:30.423-''
   \<and> Range_toString numstr_unused \<lparr> start = Time_new NaN, stop = Time_new NOW \<rparr> None = ''-now''
   \<and> Range_toString numstr_unused \<lparr> start = Time_new NaN, stop = Time_new NaN \<rparr> None = []"
proof (intro conjI)
  show "Range_toString numstr_unused
      \<lparr> start = Time_new (Num (30423 / 1000)), stop = Time_new (Num (60789 / 1000)) \<rparr> None
     = ''00:00:30.423-00:01:00.789''"
    using Range_toString_cases [of numstr_unused
        "\<lparr> start = Time_new (Num (30423 / 1000)), stop = Time_new (Num (60789 / 1000)) \<rparr>" None]
    by (simp add: toString_30423 toString_60789 time_value_new)
  show "Range_toString numstr_unused
      \<lparr> start = Time_new (Num (30423 / 1000)), stop = Time_new (Num (29987 / 1000)) \<rparr> None
     = ''00:00:30.423-''"
    using Range_toString_cases [of numstr_unused
        "\<lparr> start = Time_new (Num (30423 / 1000)), stop = Time_new (Num (29987 / 1000)) \<rparr>" None]
    by (simp add: toString_30423 toString_29987 time_value_new)
  show "Range_toString numstr_unused \<lparr> start = Time_new NaN, stop = Time_new NOW \<rparr> None = ''-now''"
    using Range_toString_cases [of numstr_unused "\<lparr> start = Time_new NaN, stop = Time_new NOW \<rparr>" None]
    by (simp add: toString_NaN toString_NOW)
  show "Range_toString numstr_unused \<lparr> start = Time_new NaN, stop = Time_new NaN \<rparr> None = []"
    using Range_toString_cases [of numstr_unused "\<lparr> start = Time_new NaN, stop = Time_new NaN \<rparr>" None]
    by (simp add: toString_NaN)
qed

text \<open>
  C7 as stated fails: the range made by \<^verbatim>\<open>Range.from(30.423, 29.987)\<close> has two texts that
  are not empty and a stop before the start. The source returns \<^verbatim>\<open>00:00:30.423-\<close>; with
  "only the start is not empty" the result would be the empty string.
\<close>

theorem Range_toString_only_counterexample:
  "Range_from parse_nothing [JNumber (Num (30423 / 1000)), JNumber (Num (29987 / 1000))] =
     Inr \<lparr> start = Time_new (Num (30423 / 1000)), stop = Time_new (Num (29987 / 1000)) \<rparr>
   \<and> Range_toString numstr_unused
        \<lparr> start = Time_new (Num (30423 / 1000)), stop = Time_new (Num (29987 / 1000)) \<rparr> None
       = ''00:00:30.423-''
   \<and> Range_toString_spec numstr_unused
        \<lparr> start = Time_new (Num (30423 / 1000)), stop = Time_new (Num (29987 / 1000)) \<rparr> None
       = []"
  by (simp add: Range_from_def Range_args_def element_def Range_new_eq Range_set_eq Time_set_def
      Time_from_simps Time_update_new time_value_new Range_toString_def Range_toString_spec_def
      toString_30423 toString_29987 Time_valueOf_def)

end
